theory Spec2Isabelle
  imports Complex_Main
begin

section \<open>The metrics library: descriptors and constant metrics\<close>

text \<open>
  The exporter (\<^verbatim>\<open>internal/exporter/exporter.go\<close>) builds its descriptors with
  \<^verbatim>\<open>prometheus.NewDesc\<close> and its observations with \<^verbatim>\<open>prometheus.MustNewConstMetric\<close>.
  A descriptor keeps the fully qualified name, the help text, the names of its variable
  labels and the error that \<^verbatim>\<open>NewDesc\<close> found while validating them (\<open>err\<close>, \<open>True\<close>
  when there is one). Strings are byte lists, as Go's are: the non-ASCII characters of the
  help texts are written as their UTF-8 bytes.
\<close>

record Desc =
  fqName :: string
  helpText :: string
  variableLabels :: "string list"
  err :: bool

definition BuildFQName :: "string \<Rightarrow> string \<Rightarrow> string \<Rightarrow> string" where
  "BuildFQName namespace subsystem name =
     (if name = [] then []
      else if namespace \<noteq> [] \<and> subsystem \<noteq> [] then namespace @ ''_'' @ subsystem @ ''_'' @ name
      else if namespace \<noteq> [] then namespace @ ''_'' @ name
      else if subsystem \<noteq> [] then subsystem @ ''_'' @ name
      else name)"

definition is_letter :: "char \<Rightarrow> bool" where
  "is_letter c = (let n = (of_char c :: nat) in (65 \<le> n \<and> n \<le> 90) \<or> (97 \<le> n \<and> n \<le> 122))"

definition is_digit :: "char \<Rightarrow> bool" where
  "is_digit c = (let n = (of_char c :: nat) in 48 \<le> n \<and> n \<le> 57)"

text \<open>Metric names match \<^verbatim>\<open>[a-zA-Z_:][a-zA-Z0-9_:]*\<close>.\<close>

definition IsValidMetricName :: "string \<Rightarrow> bool" where
  "IsValidMetricName s =
     (case s of
        [] \<Rightarrow> False
      | c # cs \<Rightarrow> (is_letter c \<or> c = CHR ''_'' \<or> c = CHR '':'') \<and>
          list_all (\<lambda>d. is_letter d \<or> is_digit d \<or> d = CHR ''_'' \<or> d = CHR '':'') cs)"

text \<open>Label names match \<^verbatim>\<open>[a-zA-Z_][a-zA-Z0-9_]*\<close> and do not start with two underscores.\<close>

definition checkLabelName :: "string \<Rightarrow> bool" where
  "checkLabelName s =
     (case s of
        [] \<Rightarrow> False
      | c # cs \<Rightarrow> (is_letter c \<or> c = CHR ''_'') \<and>
          list_all (\<lambda>d. is_letter d \<or> is_digit d \<or> d = CHR ''_'') cs \<and>
          take 2 s \<noteq> ''__'')"

text \<open>
  \<^verbatim>\<open>NewDesc(fqName, help, variableLabels, nil)\<close>: every call of the exporter passes
  \<^verbatim>\<open>nil\<close> constant labels. The descriptor is in error when the name or a label name is
  invalid, or a label name occurs twice.
\<close>

definition NewDesc :: "string \<Rightarrow> string \<Rightarrow> string list \<Rightarrow> Desc" where
  "NewDesc name helptext labels =
     \<lparr> fqName = name, helpText = helptext, variableLabels = labels,
       err = (\<not> IsValidMetricName name \<or> \<not> list_all checkLabelName labels \<or> \<not> distinct labels) \<rparr>"

text \<open>
  A \<^verbatim>\<open>float64\<close> is the real number it denotes. The exporter computes nothing with
  its floats: it decodes them and hands them on, so rounding never enters; the values that
  are not numbers (infinities, NaN) are never the result of decoding JSON.
\<close>

type_synonym float64 = real

datatype ValueType = CounterValue | GaugeValue | UntypedValue

record Metric =
  desc :: Desc
  valType :: ValueType
  val :: float64
  labelValues :: "string list"

text \<open>
  A Go panic is a value of the model. \<open>NilDereference\<close> is the run-time panic of a field
  read through a nil pointer; \<open>InvalidDesc\<close> and \<open>InconsistentCardinality\<close> are the two
  errors on which \<^verbatim>\<open>MustNewConstMetric\<close> panics: a descriptor in error, and a number of
  label values that differs from the number of variable labels. (The library also rejects
  a label value that is not valid UTF-8; the exporter's label values come from
  \<^verbatim>\<open>json.Unmarshal\<close> and \<^verbatim>\<open>strconv.Itoa\<close>, which return valid UTF-8 only.)
\<close>

datatype panic = NilDereference | InvalidDesc | InconsistentCardinality

definition MustNewConstMetric :: "Desc \<Rightarrow> ValueType \<Rightarrow> float64 \<Rightarrow> string list \<Rightarrow> panic + Metric" where
  "MustNewConstMetric d t v lvs =
     (if err d then Inl InvalidDesc
      else if length lvs \<noteq> length (variableLabels d) then Inl InconsistentCardinality
      else Inr \<lparr> desc = d, valType = t, val = v, labelValues = lvs \<rparr>)"

section \<open>The exporter's descriptors (lines 16-152)\<close>

definition score :: Desc where
  "score = NewDesc (BuildFQName ''awair'' '''' ''score'')
     ''Awair Score (0-100)''
     [''device_uuid'']"

definition dew_point :: Desc where
  "dew_point = NewDesc (BuildFQName ''awair'' '''' ''dew_point'')
     (''The temperature at which water will condense and form into dew ('' @ [CHR 0xC2, CHR 0xBA] @ ''C)'')
     [''device_uuid'']"

definition temp :: Desc where
  "temp = NewDesc (BuildFQName ''awair'' '''' ''temp'')
     (''Dry bulb temperature ('' @ [CHR 0xC2, CHR 0xBA] @ ''C)'')
     [''device_uuid'']"

definition humidity :: Desc where
  "humidity = NewDesc (BuildFQName ''awair'' '''' ''humidity'')
     ''Relative Humidity (%)''
     [''device_uuid'']"

definition abs_humidity :: Desc where
  "abs_humidity = NewDesc (BuildFQName ''awair'' '''' ''absolute_humidity'')
     (''Absolute Humidity (g/m'' @ [CHR 0xC2, CHR 0xB3] @ '')'')
     [''device_uuid'']"

definition co2 :: Desc where
  "co2 = NewDesc (BuildFQName ''awair'' '''' ''co2'')
     ''Carbon Dioxide (ppm)''
     [''device_uuid'']"

definition co2_estimated :: Desc where
  "co2_estimated = NewDesc (BuildFQName ''awair'' '''' ''co2_est'')
     ''Estimated Carbon Dioxide (ppm - calculated by the TVOC sensor)''
     [''device_uuid'']"

definition co2_estimate_baseline :: Desc where
  "co2_estimate_baseline = NewDesc (BuildFQName ''awair'' '''' ''co2_est_baseline'')
     (''A unitless value that represents the baseline from which the TVOC sensor partially derives its estimated (e)CO''
        @ [CHR 0xE2, CHR 0x82, CHR 0x82] @ ''output.'')
     [''device_uuid'']"

definition voc :: Desc where
  "voc = NewDesc (BuildFQName ''awair'' '''' ''voc'')
     ''Total Volatile Organic Compounds (ppb)''
     [''device_uuid'']"

definition voc_baseline :: Desc where
  "voc_baseline = NewDesc (BuildFQName ''awair'' '''' ''voc_baseline'')
     ''A unitless value that represents the baseline from which the TVOC sensor partially derives its TVOC output.''
     [''device_uuid'']"

definition voc_h2_raw :: Desc where
  "voc_h2_raw = NewDesc (BuildFQName ''awair'' '''' ''voc_h2_raw'')
     ''A unitless value that represents the Hydrogen gas signal from which the TVOC sensor partially derives its TVOC output.''
     [''device_uuid'']"

definition voc_ethanol_raw :: Desc where
  "voc_ethanol_raw = NewDesc (BuildFQName ''awair'' '''' ''voc_ethanol_raw'')
     ''A unitless value that represents the Ethanol gas signal from which the TVOC sensor partially derives its TVOC output.''
     [''device_uuid'']"

definition pm25 :: Desc where
  "pm25 = NewDesc (BuildFQName ''awair'' '''' ''pm25'')
     (''Particulate matter less than 2.5 microns in diameter ('' @ [CHR 0xC2, CHR 0xB5] @ ''g/m''
        @ [CHR 0xC2, CHR 0xB3] @ '')'')
     [''device_uuid'']"

definition pm10 :: Desc where
  "pm10 = NewDesc (BuildFQName ''awair'' '''' ''pm10'')
     (''Estimated particulate matter less than 10 microns in diameter ('' @ [CHR 0xC2, CHR 0xB5] @ ''g/m''
        @ [CHR 0xC2, CHR 0xB3] @ '' - calculated by the PM2.5 sensor)'')
     [''device_uuid'']"

definition info :: Desc where
  "info = NewDesc (BuildFQName ''awair'' '''' ''device_info'')
     ''Info about the awair device''
     [''device_uuid'', ''firmware_version'', ''voc_feature_set'']"

section \<open>The records of the device's two resources (lines 154-192)\<close>

record AwairValues =
  Score :: float64
  DewPoint :: float64
  Temp :: float64
  Humidity :: float64
  AbsHumidity :: float64
  CO2 :: float64
  CO2Est :: float64
  CO2EstBaseline :: float64
  Voc :: float64
  VocBaseline :: float64
  VocH2Raw :: float64
  VocEthanolRaw :: float64
  PM25 :: float64
  PM10Est :: float64

record LEDSettings =
  Mode :: string
  Brightness :: int

record ConfigResponse =
  DeviceUUID :: string
  WifiMAC :: string
  SSID :: string
  IP :: string
  Netmask :: string
  Gateway :: string
  FirmwareVersion :: string
  Timezone :: string
  Display :: string
  LED :: LEDSettings
  VocFeatureSet :: int

record AwairExporter =
  hostname :: string

text \<open>The zero values \<^verbatim>\<open>AwairValues{}\<close>, \<^verbatim>\<open>LEDSettings{}\<close> and \<^verbatim>\<open>ConfigResponse{}\<close>.\<close>

definition zero_AwairValues :: AwairValues where
  "zero_AwairValues =
     \<lparr> Score = 0, DewPoint = 0, Temp = 0, Humidity = 0, AbsHumidity = 0, CO2 = 0, CO2Est = 0,
       CO2EstBaseline = 0, Voc = 0, VocBaseline = 0, VocH2Raw = 0, VocEthanolRaw = 0, PM25 = 0,
       PM10Est = 0 \<rparr>"

definition zero_LEDSettings :: LEDSettings where
  "zero_LEDSettings = \<lparr> Mode = [], Brightness = 0 \<rparr>"

definition zero_ConfigResponse :: ConfigResponse where
  "zero_ConfigResponse =
     \<lparr> DeviceUUID = [], WifiMAC = [], SSID = [], IP = [], Netmask = [], Gateway = [],
       FirmwareVersion = [], Timezone = [], Display = [], LED = zero_LEDSettings,
       VocFeatureSet = 0 \<rparr>"

section \<open>Decoding JSON into the records\<close>

text \<open>
  \<^verbatim>\<open>json.Unmarshal\<close> first checks that the bytes are one well-formed JSON text, then stores
  the value into the record. A body is modelled after that first step: \<open>Malformed\<close>, or the
  document it denotes. Object members keep their order and their duplicates; strings are
  the unquoted ones. A number token is kept as what the decoder's two conversions make of
  it: \<open>as_float64\<close> is the result of \<^verbatim>\<open>strconv.ParseFloat(tok, 64)\<close> (\<open>None\<close> when the
  token is out of range), \<open>as_int\<close> the result of \<^verbatim>\<open>strconv.ParseInt(tok, 10, 64)\<close>
  (\<open>None\<close> when the token has a fraction or an exponent, or is out of range).
\<close>

datatype number = Number (as_float64: "float64 option") (as_int: "int option")

datatype json =
    JNull
  | JBool bool
  | JNumber number
  | JString string
  | JArray "json list"
  | JObject "(string \<times> json) list"

datatype payload = Malformed | WellFormed json

text \<open>The token of an integer literal small enough to be a float64 exactly, and of a
  literal with a fraction that \<^verbatim>\<open>ParseFloat\<close> rounds to \<open>x\<close>.\<close>

definition int_token :: "int \<Rightarrow> json" where
  "int_token n = JNumber (Number (Some (of_int n)) (Some n))"

definition frac_token :: "float64 \<Rightarrow> json" where
  "frac_token x = JNumber (Number (Some x) None)"

datatype error = TransportError | ReadError | SyntaxError | UnmarshalTypeError

text \<open>
  Storing a JSON value into a field of a Go type, given the field's current content:
  \<^verbatim>\<open>null\<close> leaves a float, an int, a string or a struct as it is; a value of the wrong
  kind, or a number that does not convert, is an \<^verbatim>\<open>UnmarshalTypeError\<close>.
\<close>

definition store_float64 :: "json \<Rightarrow> float64 \<Rightarrow> error + float64" where
  "store_float64 j cur =
     (case j of
        JNull \<Rightarrow> Inr cur
      | JNumber n \<Rightarrow> (case as_float64 n of Some x \<Rightarrow> Inr x | None \<Rightarrow> Inl UnmarshalTypeError)
      | _ \<Rightarrow> Inl UnmarshalTypeError)"

definition store_int :: "json \<Rightarrow> int \<Rightarrow> error + int" where
  "store_int j cur =
     (case j of
        JNull \<Rightarrow> Inr cur
      | JNumber n \<Rightarrow> (case as_int n of Some i \<Rightarrow> Inr i | None \<Rightarrow> Inl UnmarshalTypeError)
      | _ \<Rightarrow> Inl UnmarshalTypeError)"

definition store_string :: "json \<Rightarrow> string \<Rightarrow> error + string" where
  "store_string j cur =
     (case j of
        JNull \<Rightarrow> Inr cur
      | JString s \<Rightarrow> Inr s
      | _ \<Rightarrow> Inl UnmarshalTypeError)"

text \<open>
  An object key selects the field whose JSON name it equals, and otherwise the first field
  whose name it equals under Unicode simple case folding. \<open>foldName\<close> folds the ASCII
  letters and the two other characters that fold to an ASCII letter (the long s, bytes
  C5 BF, and the Kelvin sign, bytes E2 84 AA), which decides equality with the
  all-ASCII names of these records.
\<close>

definition upper :: "char \<Rightarrow> char" where
  "upper c = (let n = (of_char c :: nat) in if 97 \<le> n \<and> n \<le> 122 then char_of (n - 32) else c)"

fun foldName :: "string \<Rightarrow> string" where
  "foldName (a # b # c # cs) =
     (if [a, b, c] = [CHR 0xE2, CHR 0x84, CHR 0xAA] then CHR ''K'' # foldName cs
      else if [a, b] = [CHR 0xC5, CHR 0xBF] then CHR ''S'' # foldName (c # cs)
      else upper a # foldName (b # c # cs))"
| "foldName [a, b] =
     (if [a, b] = [CHR 0xC5, CHR 0xBF] then ''S'' else [upper a, upper b])"
| "foldName [a] = [upper a]"
| "foldName [] = []"

definition find_field :: "string list \<Rightarrow> string \<Rightarrow> string option" where
  "find_field names key =
     (if key \<in> set names then Some key
      else find (\<lambda>n. foldName n = foldName key) names)"

text \<open>
  A struct type is the list of its fields: the JSON name (the \<^verbatim>\<open>json:"..."\<close> tag, or the
  Go name where there is none) and how a value is stored into that field. Members are
  stored in their order; a key that selects no field is skipped. The decoder goes on after
  a type error and returns the first one at the end; both callers drop the record on any
  error, so the model stops at the first.
\<close>

type_synonym 'a field = "string \<times> (json \<Rightarrow> 'a \<Rightarrow> error + 'a)"

definition store_member :: "'a field list \<Rightarrow> string \<times> json \<Rightarrow> 'a \<Rightarrow> error + 'a" where
  "store_member fs m v =
     (case find_field (map fst fs) (fst m) of
        None \<Rightarrow> Inr v
      | Some n \<Rightarrow> (case map_of fs n of None \<Rightarrow> Inr v | Some st \<Rightarrow> st (snd m) v))"

fun store_members :: "'a field list \<Rightarrow> (string \<times> json) list \<Rightarrow> 'a \<Rightarrow> error + 'a" where
  "store_members fs [] v = Inr v"
| "store_members fs (m # ms) v =
     (case store_member fs m v of
        Inl e \<Rightarrow> Inl e
      | Inr v' \<Rightarrow> store_members fs ms v')"

definition store_struct :: "'a field list \<Rightarrow> json \<Rightarrow> 'a \<Rightarrow> error + 'a" where
  "store_struct fs j v =
     (case j of
        JNull \<Rightarrow> Inr v
      | JObject ms \<Rightarrow> store_members fs ms v
      | _ \<Rightarrow> Inl UnmarshalTypeError)"

definition float64_field :: "('a \<Rightarrow> float64) \<Rightarrow> (float64 \<Rightarrow> 'a \<Rightarrow> 'a) \<Rightarrow> json \<Rightarrow> 'a \<Rightarrow> error + 'a" where
  "float64_field get put j v =
     (case store_float64 j (get v) of Inl e \<Rightarrow> Inl e | Inr x \<Rightarrow> Inr (put x v))"

definition int_field :: "('a \<Rightarrow> int) \<Rightarrow> (int \<Rightarrow> 'a \<Rightarrow> 'a) \<Rightarrow> json \<Rightarrow> 'a \<Rightarrow> error + 'a" where
  "int_field get put j v =
     (case store_int j (get v) of Inl e \<Rightarrow> Inl e | Inr x \<Rightarrow> Inr (put x v))"

definition string_field :: "('a \<Rightarrow> string) \<Rightarrow> (string \<Rightarrow> 'a \<Rightarrow> 'a) \<Rightarrow> json \<Rightarrow> 'a \<Rightarrow> error + 'a" where
  "string_field get put j v =
     (case store_string j (get v) of Inl e \<Rightarrow> Inl e | Inr x \<Rightarrow> Inr (put x v))"

definition AwairValues_fields :: "AwairValues field list" where
  "AwairValues_fields =
     [ (''score'', float64_field Score (\<lambda>x v. v\<lparr>Score := x\<rparr>)),
       (''dew_point'', float64_field DewPoint (\<lambda>x v. v\<lparr>DewPoint := x\<rparr>)),
       (''temp'', float64_field Temp (\<lambda>x v. v\<lparr>Temp := x\<rparr>)),
       (''humid'', float64_field Humidity (\<lambda>x v. v\<lparr>Humidity := x\<rparr>)),
       (''abs_humid'', float64_field AbsHumidity (\<lambda>x v. v\<lparr>AbsHumidity := x\<rparr>)),
       (''co2'', float64_field CO2 (\<lambda>x v. v\<lparr>CO2 := x\<rparr>)),
       (''co2_est'', float64_field CO2Est (\<lambda>x v. v\<lparr>CO2Est := x\<rparr>)),
       (''co2_est_baseline'', float64_field CO2EstBaseline (\<lambda>x v. v\<lparr>CO2EstBaseline := x\<rparr>)),
       (''voc'', float64_field Voc (\<lambda>x v. v\<lparr>Voc := x\<rparr>)),
       (''voc_baseline'', float64_field VocBaseline (\<lambda>x v. v\<lparr>VocBaseline := x\<rparr>)),
       (''voc_h2_raw'', float64_field VocH2Raw (\<lambda>x v. v\<lparr>VocH2Raw := x\<rparr>)),
       (''voc_ethanol_raw'', float64_field VocEthanolRaw (\<lambda>x v. v\<lparr>VocEthanolRaw := x\<rparr>)),
       (''pm25'', float64_field PM25 (\<lambda>x v. v\<lparr>PM25 := x\<rparr>)),
       (''pm10_est'', float64_field PM10Est (\<lambda>x v. v\<lparr>PM10Est := x\<rparr>)) ]"

definition LEDSettings_fields :: "LEDSettings field list" where
  "LEDSettings_fields =
     [ (''Mode'', string_field Mode (\<lambda>x v. v\<lparr>Mode := x\<rparr>)),
       (''Brightness'', int_field Brightness (\<lambda>x v. v\<lparr>Brightness := x\<rparr>)) ]"

definition LED_field :: "json \<Rightarrow> ConfigResponse \<Rightarrow> error + ConfigResponse" where
  "LED_field j v =
     (case store_struct LEDSettings_fields j (LED v) of
        Inl e \<Rightarrow> Inl e
      | Inr x \<Rightarrow> Inr (v\<lparr>LED := x\<rparr>))"

definition ConfigResponse_fields :: "ConfigResponse field list" where
  "ConfigResponse_fields =
     [ (''device_uuid'', string_field DeviceUUID (\<lambda>x v. v\<lparr>DeviceUUID := x\<rparr>)),
       (''wifi_mac'', string_field WifiMAC (\<lambda>x v. v\<lparr>WifiMAC := x\<rparr>)),
       (''ssid'', string_field SSID (\<lambda>x v. v\<lparr>SSID := x\<rparr>)),
       (''ip'', string_field IP (\<lambda>x v. v\<lparr>IP := x\<rparr>)),
       (''netmask'', string_field Netmask (\<lambda>x v. v\<lparr>Netmask := x\<rparr>)),
       (''gateway'', string_field Gateway (\<lambda>x v. v\<lparr>Gateway := x\<rparr>)),
       (''fw_version'', string_field FirmwareVersion (\<lambda>x v. v\<lparr>FirmwareVersion := x\<rparr>)),
       (''timezone'', string_field Timezone (\<lambda>x v. v\<lparr>Timezone := x\<rparr>)),
       (''display'', string_field Display (\<lambda>x v. v\<lparr>Display := x\<rparr>)),
       (''led'', LED_field),
       (''voc_feature_set'', int_field VocFeatureSet (\<lambda>x v. v\<lparr>VocFeatureSet := x\<rparr>)) ]"

text \<open>\<^verbatim>\<open>json.Unmarshal(body, &v)\<close> for a record \<open>v\<close> of the struct type \<open>fs\<close>.\<close>

definition Unmarshal :: "'a field list \<Rightarrow> payload \<Rightarrow> 'a \<Rightarrow> error + 'a" where
  "Unmarshal fs body v =
     (case body of
        Malformed \<Rightarrow> Inl SyntaxError
      | WellFormed j \<Rightarrow> store_struct fs j v)"

section \<open>The network\<close>

text \<open>
  \<^verbatim>\<open>http.Get(uri)\<close> either fails (\<open>None\<close>) or returns a response: its status code and its
  body, which \<^verbatim>\<open>ioutil.ReadAll\<close> either fails to read or reads whole. The world answers the
  \<open>n\<close>-th request of the process as \<open>net n uri\<close>, so an answer may change from one request
  to the next, and it records every request made.
\<close>

datatype body = Unreadable | Readable payload

datatype response = Response (StatusCode: nat) (Body: body)

record world =
  net :: "nat \<Rightarrow> string \<Rightarrow> response option"
  requests :: "string list"

definition http_Get :: "string \<Rightarrow> world \<Rightarrow> response option \<times> world" where
  "http_Get uri w = (net w (length (requests w)) uri, w\<lparr>requests := requests w @ [uri]\<rparr>)"

section \<open>The exporter (lines 194-355)\<close>

text \<open>
  A method with the receiver \<^verbatim>\<open>e *AwairExporter\<close> takes the exporter and the world and
  returns its result with the exporter and the world it leaves. A Go result pair
  \<^verbatim>\<open>(*T, error)\<close> is a sum: \<open>Inl err\<close> is \<^verbatim>\<open>(nil, err)\<close>, \<open>Inr x\<close> is a pointer to \<open>x\<close>
  with a nil error. The log calls write to the logger only and are left out.

  \<^verbatim>\<open>GetMetrics\<close> (lines 227-249) and \<^verbatim>\<open>GetConfig\<close> (lines 251-273) have the same body
  after the line that builds the address: \<open>fetch\<close> is that body, one \<^verbatim>\<open>http.Get\<close>, then
  \<^verbatim>\<open>ioutil.ReadAll\<close>, then \<^verbatim>\<open>json.Unmarshal\<close> into the zero-valued record, each error
  returned at once.
\<close>

definition fetch :: "string \<Rightarrow> 'a field list \<Rightarrow> 'a \<Rightarrow> world \<Rightarrow> (error + 'a) \<times> world" where
  "fetch uri fs zero w =
     (let (resp, w') = http_Get uri w in
      (case resp of
         None \<Rightarrow> Inl TransportError
       | Some r \<Rightarrow>
           (case Body r of
              Unreadable \<Rightarrow> Inl ReadError
            | Readable b \<Rightarrow> Unmarshal fs b zero),
       w'))"

definition GetMetrics :: "AwairExporter \<Rightarrow> world \<Rightarrow> (error + AwairValues) \<times> AwairExporter \<times> world" where
  "GetMetrics e w =
     (let uri = ''http://'' @ hostname e @ ''/air-data/latest'';
          (r, w') = fetch uri AwairValues_fields zero_AwairValues w
      in (r, e, w'))"

definition GetConfig :: "AwairExporter \<Rightarrow> world \<Rightarrow> (error + ConfigResponse) \<times> AwairExporter \<times> world" where
  "GetConfig e w =
     (let uri = ''http://'' @ hostname e @ ''/settings/config/data'';
          (r, w') = fetch uri ConfigResponse_fields zero_ConfigResponse w
      in (r, e, w'))"

definition NewAwairExporter :: "string \<Rightarrow> world \<Rightarrow> (error + AwairExporter) \<times> world" where
  "NewAwairExporter host w =
     (let ex = \<lparr> hostname = host \<rparr>;
          (r, ex', w') = GetConfig ex w
      in (case r of
            Inl e \<Rightarrow> (Inl e, w')
          | Inr config \<Rightarrow> (Inr ex', w')))"

definition Describe :: "AwairExporter \<Rightarrow> world \<Rightarrow> Desc list \<times> AwairExporter \<times> world" where
  "Describe e w =
     ([ score, dew_point, temp, humidity, abs_humidity, co2, co2_estimated,
        co2_estimate_baseline, voc, voc_baseline, voc_h2_raw, voc_ethanol_raw, pm25, pm10,
        info ], e, w)"

text \<open>\<^verbatim>\<open>strconv.Itoa\<close>: the decimal digits of an integer, with a minus sign when negative.\<close>

function FormatNat :: "nat \<Rightarrow> string" where
  "FormatNat n =
     (if n < 10 then [char_of (48 + n)]
      else FormatNat (n div 10) @ [char_of (48 + n mod 10)])"
  by pat_completeness auto
termination
  by (relation "measure id") auto

declare FormatNat.simps [simp del]

definition Itoa :: "int \<Rightarrow> string" where
  "Itoa i = (if i < 0 then CHR ''-'' # FormatNat (nat (- i)) else FormatNat (nat i))"

text \<open>
  The two local variables of \<^verbatim>\<open>Collect\<close> are pointers: \<open>None\<close> is nil. Each of the two
  goroutines assigns the pointer of its fetch's result pair to its own variable, which is
  nil when the fetch returned an error. The order in which the two fetches reach the
  network is the schedule; \<^verbatim>\<open>wg.Wait()\<close> returns after both.
\<close>

record frame =
  "values" :: "AwairValues option"
  config :: "ConfigResponse option"

definition ptr :: "error + 'a \<Rightarrow> 'a option" where
  "ptr r = (case r of Inl e \<Rightarrow> None | Inr x \<Rightarrow> Some x)"

definition go_metrics :: "frame \<times> AwairExporter \<times> world \<Rightarrow> frame \<times> AwairExporter \<times> world" where
  "go_metrics s =
     (let (l, e, w) = s; (r, e', w') = GetMetrics e w
      in (l\<lparr>values := ptr r\<rparr>, e', w'))"

definition go_config :: "frame \<times> AwairExporter \<times> world \<Rightarrow> frame \<times> AwairExporter \<times> world" where
  "go_config s =
     (let (l, e, w) = s; (r, e', w') = GetConfig e w
      in (l\<lparr>config := ptr r\<rparr>, e', w'))"

datatype schedule = MetricsFirst | ConfigFirst

text \<open>
  One statement \<^verbatim>\<open>ch <- prometheus.MustNewConstMetric(d, prometheus.GaugeValue, values.F,
  config.DeviceUUID)\<close>: the field reads through the two pointers panic on nil.
\<close>

definition gauge :: "Desc \<Rightarrow> (AwairValues \<Rightarrow> float64) \<Rightarrow> frame \<Rightarrow> panic + Metric" where
  "gauge d F l =
     (case values l of
        None \<Rightarrow> Inl NilDereference
      | Some v \<Rightarrow>
          (case config l of
             None \<Rightarrow> Inl NilDereference
           | Some c \<Rightarrow> MustNewConstMetric d GaugeValue (F v) [DeviceUUID c]))"

definition info_gauge :: "frame \<Rightarrow> panic + Metric" where
  "info_gauge l =
     (case config l of
        None \<Rightarrow> Inl NilDereference
      | Some c \<Rightarrow>
          MustNewConstMetric info GaugeValue 1
            [DeviceUUID c, FirmwareVersion c, Itoa (VocFeatureSet c)])"

text \<open>The statements run in order; a panic ends the function with what was sent before it.\<close>

fun send_all :: "(panic + Metric) list \<Rightarrow> Metric list \<Rightarrow> Metric list \<times> panic option" where
  "send_all [] ch = (ch, None)"
| "send_all (Inl p # rest) ch = (ch, Some p)"
| "send_all (Inr m # rest) ch = send_all rest (ch @ [m])"

definition emit :: "frame \<Rightarrow> Metric list \<times> panic option" where
  "emit l =
     send_all
       [ gauge score Score l,
         gauge dew_point DewPoint l,
         gauge temp Temp l,
         gauge humidity Humidity l,
         gauge abs_humidity AbsHumidity l,
         gauge co2 CO2 l,
         gauge co2_estimated CO2Est l,
         gauge co2_estimate_baseline CO2EstBaseline l,
         gauge voc Voc l,
         gauge voc_baseline VocBaseline l,
         gauge voc_h2_raw VocH2Raw l,
         gauge voc_ethanol_raw VocEthanolRaw l,
         gauge pm25 PM25 l,
         gauge pm10 PM10Est l,
         info_gauge l ] []"

text \<open>
  \<^verbatim>\<open>Collect\<close>: the two variables start as pointers to zero-valued records (lines 276-277),
  the two goroutines run to their end in the order of the schedule (lines 279-305), and
  the fifteen statements of lines 307-355 send the observations.
\<close>

definition Collect_fetch :: "schedule \<Rightarrow> AwairExporter \<Rightarrow> world \<Rightarrow> frame \<times> AwairExporter \<times> world" where
  "Collect_fetch sched e w =
     (let l = \<lparr> values = Some zero_AwairValues, config = Some zero_ConfigResponse \<rparr>
      in (case sched of
            MetricsFirst \<Rightarrow> go_config (go_metrics (l, e, w))
          | ConfigFirst \<Rightarrow> go_metrics (go_config (l, e, w))))"

definition Collect ::
  "schedule \<Rightarrow> AwairExporter \<Rightarrow> world \<Rightarrow> (Metric list \<times> panic option) \<times> AwairExporter \<times> world" where
  "Collect sched e w =
     (let (l, e', w') = Collect_fetch sched e w
      in (emit l, e', w'))"

text \<open>The results that the two fetches of one cycle return, readings first in the pair.\<close>

definition fetched ::
  "schedule \<Rightarrow> AwairExporter \<Rightarrow> world \<Rightarrow> (error + AwairValues) \<times> (error + ConfigResponse)" where
  "fetched sched e w =
     (case sched of
        MetricsFirst \<Rightarrow>
          (let (rv, e1, w1) = GetMetrics e w; (rc, e2, w2) = GetConfig e1 w1 in (rv, rc))
      | ConfigFirst \<Rightarrow>
          (let (rc, e1, w1) = GetConfig e w; (rv, e2, w2) = GetMetrics e1 w1 in (rv, rc)))"

section \<open>Sequences of operations on an exporter\<close>

text \<open>
  The operations a caller can run on a constructed exporter, one after the other. A panic
  of \<^verbatim>\<open>Collect\<close> ends the run in the state it was raised in.
\<close>

datatype operation = OpDescribe | OpCollect schedule | OpGetMetrics | OpGetConfig

fun step :: "operation \<Rightarrow> AwairExporter \<times> world \<Rightarrow> (AwairExporter \<times> world) \<times> panic option" where
  "step OpDescribe (e, w) = (snd (Describe e w), None)"
| "step (OpCollect sched) (e, w) = (snd (Collect sched e w), snd (fst (Collect sched e w)))"
| "step OpGetMetrics (e, w) = (snd (GetMetrics e w), None)"
| "step OpGetConfig (e, w) = (snd (GetConfig e w), None)"

fun run :: "operation list \<Rightarrow> AwairExporter \<times> world \<Rightarrow> (AwairExporter \<times> world) \<times> panic option" where
  "run [] s = (s, None)"
| "run (x # xs) s =
     (case step x s of
        (s', Some p) \<Rightarrow> (s', Some p)
      | (s', None) \<Rightarrow> run xs s')"

section \<open>The shapes the decoder accepts\<close>










section \<open>Devices\<close>

text \<open>
  A world in which no request has been made yet and the device at \<open>host\<close> answers every
  request for its readings with \<open>rm\<close> and every request for its configuration with \<open>rc\<close>
  (\<open>None\<close>: the request fails); any other request fails.
\<close>

definition serving :: "string \<Rightarrow> response option \<Rightarrow> response option \<Rightarrow> world" where
  "serving host rm rc =
     \<lparr> net = (\<lambda>n uri.
         if uri = ''http://'' @ host @ ''/air-data/latest'' then rm
         else if uri = ''http://'' @ host @ ''/settings/config/data'' then rc
         else None),
       requests = [] \<rparr>"

definition ok :: "json \<Rightarrow> response option" where
  "ok j = Some (Response 200 (Readable (WellFormed j)))"

text \<open>
  The readings body
  \<^verbatim>\<open>{"score":85,"dew_point":12.3,"temp":21.5,"humid":40.2,"abs_humid":7.1,"co2":612,
  "co2_est":600,"co2_est_baseline":4200,"voc":250,"voc_baseline":18000,"voc_h2_raw":12500,
  "voc_ethanol_raw":18800,"pm25":3,"pm10_est":5}\<close>, where \<open>dp\<close>, \<open>t\<close>, \<open>h\<close> and \<open>ah\<close> are the
  floats that \<^verbatim>\<open>12.3\<close>, \<^verbatim>\<open>21.5\<close>, \<^verbatim>\<open>40.2\<close> and \<^verbatim>\<open>7.1\<close> are rounded to, and the
  configuration body
  \<^verbatim>\<open>{"device_uuid":"awair-123","fw_version":"1.2.3","voc_feature_set":3}\<close>.
\<close>

definition readings_body :: "float64 \<Rightarrow> float64 \<Rightarrow> float64 \<Rightarrow> float64 \<Rightarrow> json" where
  "readings_body dp t h ah =
     JObject
       [ (''score'', int_token 85), (''dew_point'', frac_token dp), (''temp'', frac_token t),
         (''humid'', frac_token h), (''abs_humid'', frac_token ah), (''co2'', int_token 612),
         (''co2_est'', int_token 600), (''co2_est_baseline'', int_token 4200),
         (''voc'', int_token 250), (''voc_baseline'', int_token 18000),
         (''voc_h2_raw'', int_token 12500), (''voc_ethanol_raw'', int_token 18800),
         (''pm25'', int_token 3), (''pm10_est'', int_token 5) ]"

definition configuration_body :: json where
  "configuration_body =
     JObject
       [ (''device_uuid'', JString ''awair-123''), (''fw_version'', JString ''1.2.3''),
         (''voc_feature_set'', int_token 3) ]"

text \<open>
  The same device with the floats of the four fractions written out (the binary64 values
  nearest to them), at the host \<^verbatim>\<open>awair.local\<close>, and an exporter for that host.
\<close>

definition literal_readings :: json where
  "literal_readings =
     readings_body (3462142213541069 / 281474976710656) (43 / 2)
       (2828823515942093 / 70368744177664) (3996944669291315 / 562949953421312)"

definition literal_device :: world where
  "literal_device = serving ''awair.local'' (ok literal_readings) (ok configuration_body)"

definition literal_exporter :: AwairExporter where
  "literal_exporter = \<lparr> hostname = ''awair.local'' \<rparr>"

text \<open>What the exposition shows of an observation: the name, the labels and the value.\<close>

definition exposition :: "Metric \<Rightarrow> string \<times> (string \<times> string) list \<times> float64" where
  "exposition m = (fqName (desc m), zip (variableLabels (desc m)) (labelValues m), val m)"


definition blank_device :: world where
  "blank_device =
     serving ''awair.local''
       (Some (Response 404 (Readable (WellFormed (JObject [])))))
       (Some (Response 404 (Readable (WellFormed (JObject [])))))"


section \<open>The readings as the specification gives them\<close>













section \<open>Descriptors\<close>

lemmas desc_defs = score_def dew_point_def temp_def humidity_def abs_humidity_def co2_def
  co2_estimated_def co2_estimate_baseline_def voc_def voc_baseline_def voc_h2_raw_def
  voc_ethanol_raw_def pm25_def pm10_def info_def

lemma err_descs:
  "\<not> err score" "\<not> err dew_point" "\<not> err temp" "\<not> err humidity" "\<not> err abs_humidity"
  "\<not> err co2" "\<not> err co2_estimated" "\<not> err co2_estimate_baseline" "\<not> err voc"
  "\<not> err voc_baseline" "\<not> err voc_h2_raw" "\<not> err voc_ethanol_raw" "\<not> err pm25" "\<not> err pm10"
  "\<not> err info"
  by (simp_all add: desc_defs NewDesc_def BuildFQName_def IsValidMetricName_def checkLabelName_def
      is_letter_def is_digit_def)

lemma labels_descs:
  "variableLabels score = [''device_uuid'']"
  "variableLabels dew_point = [''device_uuid'']"
  "variableLabels temp = [''device_uuid'']"
  "variableLabels humidity = [''device_uuid'']"
  "variableLabels abs_humidity = [''device_uuid'']"
  "variableLabels co2 = [''device_uuid'']"
  "variableLabels co2_estimated = [''device_uuid'']"
  "variableLabels co2_estimate_baseline = [''device_uuid'']"
  "variableLabels voc = [''device_uuid'']"
  "variableLabels voc_baseline = [''device_uuid'']"
  "variableLabels voc_h2_raw = [''device_uuid'']"
  "variableLabels voc_ethanol_raw = [''device_uuid'']"
  "variableLabels pm25 = [''device_uuid'']"
  "variableLabels pm10 = [''device_uuid'']"
  "variableLabels info = [''device_uuid'', ''firmware_version'', ''voc_feature_set'']"
  by (simp_all add: desc_defs NewDesc_def)

lemma names_descs:
  "fqName score = ''awair_score''"
  "fqName dew_point = ''awair_dew_point''"
  "fqName temp = ''awair_temp''"
  "fqName humidity = ''awair_humidity''"
  "fqName abs_humidity = ''awair_absolute_humidity''"
  "fqName co2 = ''awair_co2''"
  "fqName co2_estimated = ''awair_co2_est''"
  "fqName co2_estimate_baseline = ''awair_co2_est_baseline''"
  "fqName voc = ''awair_voc''"
  "fqName voc_baseline = ''awair_voc_baseline''"
  "fqName voc_h2_raw = ''awair_voc_h2_raw''"
  "fqName voc_ethanol_raw = ''awair_voc_ethanol_raw''"
  "fqName pm25 = ''awair_pm25''"
  "fqName pm10 = ''awair_pm10''"
  "fqName info = ''awair_device_info''"
  by (simp_all add: desc_defs NewDesc_def BuildFQName_def)

text \<open>
  C7. \<^verbatim>\<open>Describe\<close> sends the same fifteen descriptors whatever the exporter and the world
  are, and leaves both as they were: the fourteen numeric descriptors, each with the one
  label \<^verbatim>\<open>device_uuid\<close>, then the informational descriptor with the three labels
  \<^verbatim>\<open>device_uuid\<close>, \<^verbatim>\<open>firmware_version\<close> and \<^verbatim>\<open>voc_feature_set\<close>.
\<close>

theorem Describe_fixed_fifteen:
  "fst (Describe e w) = fst (Describe e' w') \<and>
   snd (Describe e w) = (e, w) \<and>
   map (\<lambda>d. (fqName d, variableLabels d)) (fst (Describe e w)) =
     [ (''awair_score'', [''device_uuid'']),
       (''awair_dew_point'', [''device_uuid'']),
       (''awair_temp'', [''device_uuid'']),
       (''awair_humidity'', [''device_uuid'']),
       (''awair_absolute_humidity'', [''device_uuid'']),
       (''awair_co2'', [''device_uuid'']),
       (''awair_co2_est'', [''device_uuid'']),
       (''awair_co2_est_baseline'', [''device_uuid'']),
       (''awair_voc'', [''device_uuid'']),
       (''awair_voc_baseline'', [''device_uuid'']),
       (''awair_voc_h2_raw'', [''device_uuid'']),
       (''awair_voc_ethanol_raw'', [''device_uuid'']),
       (''awair_pm25'', [''device_uuid'']),
       (''awair_pm10'', [''device_uuid'']),
       (''awair_device_info'', [''device_uuid'', ''firmware_version'', ''voc_feature_set'']) ]"
  by (simp add: Describe_def names_descs labels_descs)

text \<open>
  C7, as stated with fourteen descriptors, fails: for the exporter of \<^verbatim>\<open>awair.local\<close> the
  sequence that \<^verbatim>\<open>Describe\<close> sends does not have length 14.
\<close>

theorem Describe_length_not_fourteen:
  "length (fst (Describe literal_exporter literal_device)) \<noteq> 14"
  by (simp add: Describe_def)

section \<open>Fetching\<close>

lemma fetch_eq:
  "fetch uri fs z w =
     ((case net w (length (requests w)) uri of
         None \<Rightarrow> Inl TransportError
       | Some r \<Rightarrow> (case Body r of Unreadable \<Rightarrow> Inl ReadError | Readable b \<Rightarrow> Unmarshal fs b z)),
      w\<lparr>requests := requests w @ [uri]\<rparr>)"
  by (simp add: fetch_def http_Get_def)

lemma GetMetrics_eq:
  "GetMetrics e w =
     (fst (fetch (''http://'' @ hostname e @ ''/air-data/latest'') AwairValues_fields zero_AwairValues w),
      e, w\<lparr>requests := requests w @ [''http://'' @ hostname e @ ''/air-data/latest'']\<rparr>)"
  by (simp add: GetMetrics_def fetch_eq Let_def)

lemma GetConfig_eq:
  "GetConfig e w =
     (fst (fetch (''http://'' @ hostname e @ ''/settings/config/data'') ConfigResponse_fields zero_ConfigResponse w),
      e, w\<lparr>requests := requests w @ [''http://'' @ hostname e @ ''/settings/config/data'']\<rparr>)"
  by (simp add: GetConfig_def fetch_eq Let_def)

lemma Collect_fetch_fetched:
  "fst (Collect_fetch sched e w) =
     \<lparr> values = ptr (fst (fetched sched e w)), config = ptr (snd (fetched sched e w)) \<rparr>"
  by (cases sched) (simp_all add: Collect_fetch_def fetched_def go_metrics_def go_config_def
      GetMetrics_eq GetConfig_eq)

lemma Collect_fetch_exporter: "fst (snd (Collect_fetch sched e w)) = e"
  by (cases sched) (simp_all add: Collect_fetch_def go_metrics_def go_config_def
      GetMetrics_eq GetConfig_eq)

lemma fetched_serving:
  "fetched sched \<lparr> hostname = host \<rparr> (serving host rm rc) =
     ((case rm of
         None \<Rightarrow> Inl TransportError
       | Some r \<Rightarrow> (case Body r of
                     Unreadable \<Rightarrow> Inl ReadError
                   | Readable b \<Rightarrow> Unmarshal AwairValues_fields b zero_AwairValues)),
      (case rc of
         None \<Rightarrow> Inl TransportError
       | Some r \<Rightarrow> (case Body r of
                     Unreadable \<Rightarrow> Inl ReadError
                   | Readable b \<Rightarrow> Unmarshal ConfigResponse_fields b zero_ConfigResponse)))"
  by (cases sched) (simp_all add: fetched_def GetMetrics_eq GetConfig_eq fetch_eq serving_def)

lemmas decode_defs = Unmarshal_def store_struct_def store_member_def find_field_def
  float64_field_def int_field_def string_field_def store_float64_def store_int_def
  store_string_def int_token_def frac_token_def LED_field_def

lemma Unmarshal_readings_body:
  "Unmarshal AwairValues_fields (WellFormed (readings_body dp t h ah)) zero_AwairValues =
     Inr \<lparr> Score = 85, DewPoint = dp, Temp = t, Humidity = h, AbsHumidity = ah, CO2 = 612,
           CO2Est = 600, CO2EstBaseline = 4200, Voc = 250, VocBaseline = 18000,
           VocH2Raw = 12500, VocEthanolRaw = 18800, PM25 = 3, PM10Est = 5 \<rparr>"
  by (simp add: readings_body_def AwairValues_fields_def zero_AwairValues_def decode_defs)

lemma Unmarshal_configuration_body:
  "Unmarshal ConfigResponse_fields (WellFormed configuration_body) zero_ConfigResponse =
     Inr \<lparr> DeviceUUID = ''awair-123'', WifiMAC = [], SSID = [], IP = [], Netmask = [],
           Gateway = [], FirmwareVersion = ''1.2.3'', Timezone = [], Display = [],
           LED = zero_LEDSettings, VocFeatureSet = 3 \<rparr>"
  by (simp add: configuration_body_def ConfigResponse_fields_def zero_ConfigResponse_def decode_defs)

lemma fetched_literal:
  "fetched MetricsFirst literal_exporter literal_device =
     (Inr \<lparr> Score = 85, DewPoint = 3462142213541069 / 281474976710656, Temp = 43 / 2,
            Humidity = 2828823515942093 / 70368744177664,
            AbsHumidity = 3996944669291315 / 562949953421312, CO2 = 612,
            CO2Est = 600, CO2EstBaseline = 4200, Voc = 250, VocBaseline = 18000,
            VocH2Raw = 12500, VocEthanolRaw = 18800, PM25 = 3, PM10Est = 5 \<rparr>,
      Inr \<lparr> DeviceUUID = ''awair-123'', WifiMAC = [], SSID = [], IP = [], Netmask = [],
            Gateway = [], FirmwareVersion = ''1.2.3'', Timezone = [], Display = [],
            LED = zero_LEDSettings, VocFeatureSet = 3 \<rparr>)"
  by (simp add: literal_exporter_def literal_device_def literal_readings_def fetched_serving
      ok_def Unmarshal_readings_body Unmarshal_configuration_body)

lemma NewAwairExporter_eq:
  "NewAwairExporter host w =
     ((case fst (GetConfig \<lparr> hostname = host \<rparr> w) of
         Inl failure \<Rightarrow> Inl failure
       | Inr c \<Rightarrow> Inr \<lparr> hostname = host \<rparr>),
      w\<lparr>requests := requests w @ [''http://'' @ host @ ''/settings/config/data'']\<rparr>)"
  by (simp add: NewAwairExporter_def GetConfig_eq Let_def split: sum.splits)

text \<open>
  C4. \<^verbatim>\<open>NewAwairExporter\<close> makes exactly one request, for the configuration of the given
  host, and changes nothing else of the world. It returns an error exactly when that
  configuration fetch returns one, and then it is that error; when the fetch succeeds it
  returns the exporter with the given hostname.
\<close>

theorem NewAwairExporter_fails_iff_config_fetch_fails:
  "requests (snd (NewAwairExporter host w)) =
     requests w @ [''http://'' @ host @ ''/settings/config/data''] \<and>
   net (snd (NewAwairExporter host w)) = net w \<and>
   (isl (fst (NewAwairExporter host w)) \<longleftrightarrow> isl (fst (GetConfig \<lparr> hostname = host \<rparr> w))) \<and>
   fst (NewAwairExporter host w) =
     (case fst (GetConfig \<lparr> hostname = host \<rparr> w) of
        Inl failure \<Rightarrow> Inl failure
      | Inr c \<Rightarrow> Inr \<lparr> hostname = host \<rparr>)"
  by (simp add: NewAwairExporter_eq split: sum.splits)

section \<open>Decoding and shapes\<close>


























































section \<open>Collecting\<close>

lemma gauge_Some:
  "\<not> err d \<Longrightarrow> variableLabels d = [n] \<Longrightarrow>
   gauge d F \<lparr> values = Some v, config = Some c \<rparr> =
     Inr \<lparr> desc = d, valType = GaugeValue, val = F v, labelValues = [DeviceUUID c] \<rparr>"
  by (simp add: gauge_def MustNewConstMetric_def)

lemma info_gauge_Some:
  "info_gauge \<lparr> values = x, config = Some c \<rparr> =
     Inr \<lparr> desc = info, valType = GaugeValue, val = 1,
           labelValues = [DeviceUUID c, FirmwareVersion c, Itoa (VocFeatureSet c)] \<rparr>"
  by (simp add: info_gauge_def MustNewConstMetric_def err_descs labels_descs)

lemma emit_Some:
  "emit \<lparr> values = Some v, config = Some c \<rparr> =
     ([ \<lparr> desc = score, valType = GaugeValue, val = Score v, labelValues = [DeviceUUID c] \<rparr>,
        \<lparr> desc = dew_point, valType = GaugeValue, val = DewPoint v, labelValues = [DeviceUUID c] \<rparr>,
        \<lparr> desc = temp, valType = GaugeValue, val = Temp v, labelValues = [DeviceUUID c] \<rparr>,
        \<lparr> desc = humidity, valType = GaugeValue, val = Humidity v, labelValues = [DeviceUUID c] \<rparr>,
        \<lparr> desc = abs_humidity, valType = GaugeValue, val = AbsHumidity v, labelValues = [DeviceUUID c] \<rparr>,
        \<lparr> desc = co2, valType = GaugeValue, val = CO2 v, labelValues = [DeviceUUID c] \<rparr>,
        \<lparr> desc = co2_estimated, valType = GaugeValue, val = CO2Est v, labelValues = [DeviceUUID c] \<rparr>,
        \<lparr> desc = co2_estimate_baseline, valType = GaugeValue, val = CO2EstBaseline v, labelValues = [DeviceUUID c] \<rparr>,
        \<lparr> desc = voc, valType = GaugeValue, val = Voc v, labelValues = [DeviceUUID c] \<rparr>,
        \<lparr> desc = voc_baseline, valType = GaugeValue, val = VocBaseline v, labelValues = [DeviceUUID c] \<rparr>,
        \<lparr> desc = voc_h2_raw, valType = GaugeValue, val = VocH2Raw v, labelValues = [DeviceUUID c] \<rparr>,
        \<lparr> desc = voc_ethanol_raw, valType = GaugeValue, val = VocEthanolRaw v, labelValues = [DeviceUUID c] \<rparr>,
        \<lparr> desc = pm25, valType = GaugeValue, val = PM25 v, labelValues = [DeviceUUID c] \<rparr>,
        \<lparr> desc = pm10, valType = GaugeValue, val = PM10Est v, labelValues = [DeviceUUID c] \<rparr>,
        \<lparr> desc = info, valType = GaugeValue, val = 1,
          labelValues = [DeviceUUID c, FirmwareVersion c, Itoa (VocFeatureSet c)] \<rparr> ],
      None)"
  unfolding emit_def
  by (simp add: gauge_Some [OF _ labels_descs(1)] gauge_Some err_descs labels_descs info_gauge_Some)

lemma emit_nil_values: "emit \<lparr> values = None, config = c \<rparr> = ([], Some NilDereference)"
  by (simp add: emit_def gauge_def)

lemma emit_nil_config: "emit \<lparr> values = v, config = None \<rparr> = ([], Some NilDereference)"
  by (cases v) (simp_all add: emit_def gauge_def)

lemma Collect_result:
  "fst (Collect sched e w) =
     emit \<lparr> values = ptr (fst (fetched sched e w)), config = ptr (snd (fetched sched e w)) \<rparr>"
  using Collect_fetch_fetched [of sched e w]
  by (simp add: Collect_def split_beta)

lemma Collect_exporter: "fst (snd (Collect sched e w)) = e"
  using Collect_fetch_exporter [of sched e w]
  by (simp add: Collect_def split_beta)

text \<open>
  The emission phase ends without a panic exactly when neither fetch returned an error;
  when it panics, it is on a nil pointer and before anything was sent.
\<close>

lemma Collect_completes_iff_fetches_succeed:
  "(snd (fst (Collect sched e w)) = None) =
     (\<not> isl (fst (fetched sched e w)) \<and> \<not> isl (snd (fetched sched e w))) \<and>
   (snd (fst (Collect sched e w)) = None \<or>
    fst (Collect sched e w) = ([], Some NilDereference))"
proof (cases "fst (fetched sched e w)")
  case (Inl a)
  then show ?thesis by (simp add: Collect_result ptr_def emit_nil_values)
next
  case v: (Inr v)
  show ?thesis
  proof (cases "snd (fetched sched e w)")
    case (Inl b)
    then show ?thesis by (simp add: Collect_result ptr_def emit_nil_config)
  next
    case (Inr c)
    with v show ?thesis by (simp add: Collect_result ptr_def emit_Some)
  qed
qed

text \<open>
  An empty device identifier does not stop the emission: when both bodies are the empty
  object, every record is zero-valued, and the cycle sends the fifteen observations with
  empty identifier and firmware labels. The feature-set label is then \<^verbatim>\<open>"0"\<close>, the
  decimal form of the zero code.
\<close>

lemma Collect_blank_device:
  "map exposition (fst (fst (Collect sched literal_exporter blank_device))) =
     [ (''awair_score'', [(''device_uuid'', '''')], 0),
       (''awair_dew_point'', [(''device_uuid'', '''')], 0),
       (''awair_temp'', [(''device_uuid'', '''')], 0),
       (''awair_humidity'', [(''device_uuid'', '''')], 0),
       (''awair_absolute_humidity'', [(''device_uuid'', '''')], 0),
       (''awair_co2'', [(''device_uuid'', '''')], 0),
       (''awair_co2_est'', [(''device_uuid'', '''')], 0),
       (''awair_co2_est_baseline'', [(''device_uuid'', '''')], 0),
       (''awair_voc'', [(''device_uuid'', '''')], 0),
       (''awair_voc_baseline'', [(''device_uuid'', '''')], 0),
       (''awair_voc_h2_raw'', [(''device_uuid'', '''')], 0),
       (''awair_voc_ethanol_raw'', [(''device_uuid'', '''')], 0),
       (''awair_pm25'', [(''device_uuid'', '''')], 0),
       (''awair_pm10'', [(''device_uuid'', '''')], 0),
       (''awair_device_info'',
          [(''device_uuid'', ''''), (''firmware_version'', ''''), (''voc_feature_set'', ''0'')],
          1) ]"
proof -
  have "Itoa 0 = ''0''" by code_simp
  then show ?thesis
    by (simp add: Collect_result literal_exporter_def blank_device_def fetched_serving
        Unmarshal_def store_struct_def ptr_def emit_Some exposition_def names_descs
        labels_descs zero_AwairValues_def zero_ConfigResponse_def)
qed

text \<open>
  C1, at a cycle in which exactly one fetch fails. When the readings request fails and the
  configuration is served, and when the readings are served and the configuration request
  fails, the pointer of the failed fetch is nil, the first field read through it panics,
  and \<^verbatim>\<open>Collect\<close> has sent no metric: no zero-valued record stands in for the failed side.
\<close>

theorem Collect_panics_when_one_fetch_fails:
  "fst (Collect sched \<lparr> hostname = host \<rparr> (serving host None (ok configuration_body)))
     = ([], Some NilDereference) \<and>
   fst (Collect sched \<lparr> hostname = host \<rparr> (serving host (ok (readings_body dp t h ah)) None))
     = ([], Some NilDereference)"
  by (simp add: Collect_result fetched_serving ptr_def emit_nil_values emit_nil_config)

text \<open>
  C2, at a cycle in which both fetches fail (the device is unreachable): the emission
  phase of \<^verbatim>\<open>Collect\<close> panics on a nil pointer and has sent no metric.
\<close>

theorem Collect_panics_when_device_unreachable:
  "fst (Collect sched \<lparr> hostname = host \<rparr> (serving host None None)) = ([], Some NilDereference)"
  by (simp add: Collect_result fetched_serving ptr_def emit_nil_values)

text \<open>
  C3, amended. In every cycle whose two fetches succeed, \<^verbatim>\<open>Collect\<close> sends exactly
  fifteen observations in a fixed order and does not panic: the fourteen numeric gauges,
  each with the value of its field of the readings and the device identifier of the
  configuration as its one label value, then the informational gauge with the value 1 and
  the label values device identifier, firmware version and the feature-set code in decimal.
\<close>

theorem Collect_emits_fifteen_in_order:
  assumes "fetched sched e w = (Inr v, Inr c)"
  shows "fst (Collect sched e w) =
     ([ \<lparr> desc = score, valType = GaugeValue, val = Score v, labelValues = [DeviceUUID c] \<rparr>,
        \<lparr> desc = dew_point, valType = GaugeValue, val = DewPoint v, labelValues = [DeviceUUID c] \<rparr>,
        \<lparr> desc = temp, valType = GaugeValue, val = Temp v, labelValues = [DeviceUUID c] \<rparr>,
        \<lparr> desc = humidity, valType = GaugeValue, val = Humidity v, labelValues = [DeviceUUID c] \<rparr>,
        \<lparr> desc = abs_humidity, valType = GaugeValue, val = AbsHumidity v, labelValues = [DeviceUUID c] \<rparr>,
        \<lparr> desc = co2, valType = GaugeValue, val = CO2 v, labelValues = [DeviceUUID c] \<rparr>,
        \<lparr> desc = co2_estimated, valType = GaugeValue, val = CO2Est v, labelValues = [DeviceUUID c] \<rparr>,
        \<lparr> desc = co2_estimate_baseline, valType = GaugeValue, val = CO2EstBaseline v, labelValues = [DeviceUUID c] \<rparr>,
        \<lparr> desc = voc, valType = GaugeValue, val = Voc v, labelValues = [DeviceUUID c] \<rparr>,
        \<lparr> desc = voc_baseline, valType = GaugeValue, val = VocBaseline v, labelValues = [DeviceUUID c] \<rparr>,
        \<lparr> desc = voc_h2_raw, valType = GaugeValue, val = VocH2Raw v, labelValues = [DeviceUUID c] \<rparr>,
        \<lparr> desc = voc_ethanol_raw, valType = GaugeValue, val = VocEthanolRaw v, labelValues = [DeviceUUID c] \<rparr>,
        \<lparr> desc = pm25, valType = GaugeValue, val = PM25 v, labelValues = [DeviceUUID c] \<rparr>,
        \<lparr> desc = pm10, valType = GaugeValue, val = PM10Est v, labelValues = [DeviceUUID c] \<rparr>,
        \<lparr> desc = info, valType = GaugeValue, val = 1,
          labelValues = [DeviceUUID c, FirmwareVersion c, Itoa (VocFeatureSet c)] \<rparr> ],
      None)"
  using assms by (simp add: Collect_result ptr_def emit_Some)

text \<open>
  C3, witness: both fetches succeed for the device at \<^verbatim>\<open>awair.local\<close>, and the cycle sends
  these fifteen observations.
\<close>

theorem Collect_emits_fifteen_in_order_witness:
  "fetched MetricsFirst literal_exporter literal_device =
     (Inr \<lparr> Score = 85, DewPoint = 3462142213541069 / 281474976710656, Temp = 43 / 2,
            Humidity = 2828823515942093 / 70368744177664,
            AbsHumidity = 3996944669291315 / 562949953421312, CO2 = 612,
            CO2Est = 600, CO2EstBaseline = 4200, Voc = 250, VocBaseline = 18000,
            VocH2Raw = 12500, VocEthanolRaw = 18800, PM25 = 3, PM10Est = 5 \<rparr>,
      Inr \<lparr> DeviceUUID = ''awair-123'', WifiMAC = [], SSID = [], IP = [], Netmask = [],
            Gateway = [], FirmwareVersion = ''1.2.3'', Timezone = [], Display = [],
            LED = zero_LEDSettings, VocFeatureSet = 3 \<rparr>) \<and>
   map exposition (fst (fst (Collect MetricsFirst literal_exporter literal_device))) =
     [ (''awair_score'', [(''device_uuid'', ''awair-123'')], 85),
       (''awair_dew_point'', [(''device_uuid'', ''awair-123'')], 3462142213541069 / 281474976710656),
       (''awair_temp'', [(''device_uuid'', ''awair-123'')], 43 / 2),
       (''awair_humidity'', [(''device_uuid'', ''awair-123'')], 2828823515942093 / 70368744177664),
       (''awair_absolute_humidity'', [(''device_uuid'', ''awair-123'')], 3996944669291315 / 562949953421312),
       (''awair_co2'', [(''device_uuid'', ''awair-123'')], 612),
       (''awair_co2_est'', [(''device_uuid'', ''awair-123'')], 600),
       (''awair_co2_est_baseline'', [(''device_uuid'', ''awair-123'')], 4200),
       (''awair_voc'', [(''device_uuid'', ''awair-123'')], 250),
       (''awair_voc_baseline'', [(''device_uuid'', ''awair-123'')], 18000),
       (''awair_voc_h2_raw'', [(''device_uuid'', ''awair-123'')], 12500),
       (''awair_voc_ethanol_raw'', [(''device_uuid'', ''awair-123'')], 18800),
       (''awair_pm25'', [(''device_uuid'', ''awair-123'')], 3),
       (''awair_pm10'', [(''device_uuid'', ''awair-123'')], 5),
       (''awair_device_info'',
          [(''device_uuid'', ''awair-123''), (''firmware_version'', ''1.2.3''),
           (''voc_feature_set'', ''3'')], 1) ]"
proof -
  have "Itoa 3 = ''3''" by code_simp
  then show ?thesis
    using Collect_emits_fifteen_in_order [OF fetched_literal]
    by (simp add: fetched_literal exposition_def names_descs labels_descs)
qed

text \<open>
  C3, as stated with fourteen observations, fails: both fetches succeed for the device at
  \<^verbatim>\<open>awair.local\<close>, and the number of observations sent is not 14.
\<close>

theorem Collect_sends_not_fourteen:
  "\<not> isl (fst (fetched MetricsFirst literal_exporter literal_device)) \<and>
   \<not> isl (snd (fetched MetricsFirst literal_exporter literal_device)) \<and>
   length (fst (fst (Collect MetricsFirst literal_exporter literal_device))) \<noteq> 14"
  by (simp add: Collect_result fetched_literal ptr_def emit_Some)

text \<open>
  C5. For the literal readings and configuration bodies, under either schedule, a cycle
  sends \<^verbatim>\<open>awair_score{device_uuid="awair-123"} 85\<close>, \<^verbatim>\<open>awair_co2{device_uuid="awair-123"} 612\<close>
  and \<^verbatim>\<open>awair_device_info{device_uuid="awair-123",firmware_version="1.2.3",voc_feature_set="3"} 1\<close>
  among its fifteen observations, and does not panic.
\<close>

theorem Collect_literal_bodies:
  "map exposition
     (fst (fst (Collect sched \<lparr> hostname = host \<rparr>
        (serving host (ok (readings_body dp t h ah)) (ok configuration_body))))) =
     [ (''awair_score'', [(''device_uuid'', ''awair-123'')], 85),
       (''awair_dew_point'', [(''device_uuid'', ''awair-123'')], dp),
       (''awair_temp'', [(''device_uuid'', ''awair-123'')], t),
       (''awair_humidity'', [(''device_uuid'', ''awair-123'')], h),
       (''awair_absolute_humidity'', [(''device_uuid'', ''awair-123'')], ah),
       (''awair_co2'', [(''device_uuid'', ''awair-123'')], 612),
       (''awair_co2_est'', [(''device_uuid'', ''awair-123'')], 600),
       (''awair_co2_est_baseline'', [(''device_uuid'', ''awair-123'')], 4200),
       (''awair_voc'', [(''device_uuid'', ''awair-123'')], 250),
       (''awair_voc_baseline'', [(''device_uuid'', ''awair-123'')], 18000),
       (''awair_voc_h2_raw'', [(''device_uuid'', ''awair-123'')], 12500),
       (''awair_voc_ethanol_raw'', [(''device_uuid'', ''awair-123'')], 18800),
       (''awair_pm25'', [(''device_uuid'', ''awair-123'')], 3),
       (''awair_pm10'', [(''device_uuid'', ''awair-123'')], 5),
       (''awair_device_info'',
          [(''device_uuid'', ''awair-123''), (''firmware_version'', ''1.2.3''),
           (''voc_feature_set'', ''3'')], 1) ] \<and>
   snd (fst (Collect sched \<lparr> hostname = host \<rparr>
        (serving host (ok (readings_body dp t h ah)) (ok configuration_body)))) = None"
proof -
  have "Itoa 3 = ''3''" by code_simp
  then show ?thesis
    by (simp add: Collect_result fetched_serving ok_def Unmarshal_readings_body
        Unmarshal_configuration_body ptr_def emit_Some exposition_def names_descs labels_descs)
qed

section \<open>The exporter's state\<close>

lemma step_exporter: "fst (fst (step x (e, w))) = e"
  by (cases x) (simp_all add: Describe_def Collect_exporter GetMetrics_eq GetConfig_eq)

lemma run_exporter: "fst (fst (run xs (e, w))) = e"
proof (induction xs arbitrary: w)
  case Nil
  show ?case by simp
next
  case (Cons x xs)
  obtain e' w' p where s: "step x (e, w) = ((e', w'), p)"
    by (metis surj_pair)
  with step_exporter [of x e w] have "e' = e" by simp
  with s Cons.IH [of w'] show ?case
    by (cases p) simp_all
qed

text \<open>
  C10. The exporter that \<^verbatim>\<open>NewAwairExporter\<close> returns is the record of the given hostname
  and nothing else, and after every sequence of \<^verbatim>\<open>Describe\<close>, \<^verbatim>\<open>Collect\<close>, \<^verbatim>\<open>GetMetrics\<close>
  and \<^verbatim>\<open>GetConfig\<close> it is still that record.
\<close>

theorem hostname_never_modified:
  assumes "NewAwairExporter host w = (Inr ex, w0)"
  shows "ex = \<lparr> hostname = host \<rparr> \<and> fst (fst (run ops (ex, w0))) = \<lparr> hostname = host \<rparr>"
proof -
  from assms have "ex = \<lparr> hostname = host \<rparr>"
    by (auto simp add: NewAwairExporter_eq split: sum.splits)
  then show ?thesis by (simp add: run_exporter)
qed

lemma NewAwairExporter_literal:
  "NewAwairExporter ''awair.local'' literal_device =
     (Inr literal_exporter,
      literal_device\<lparr>requests := [''http://awair.local/settings/config/data'']\<rparr>)"
  by (simp add: NewAwairExporter_eq GetConfig_eq fetch_eq literal_device_def serving_def ok_def
      Unmarshal_configuration_body literal_exporter_def)

text \<open>
  C10, witness: the exporter constructed for the device at \<^verbatim>\<open>awair.local\<close>, after five
  operations.
\<close>

theorem hostname_never_modified_witness:
  "NewAwairExporter ''awair.local'' literal_device =
     (Inr literal_exporter,
      literal_device\<lparr>requests := [''http://awair.local/settings/config/data'']\<rparr>) \<and>
   fst (fst (run [OpDescribe, OpCollect ConfigFirst, OpGetMetrics, OpGetConfig, OpCollect MetricsFirst]
     (literal_exporter,
      literal_device\<lparr>requests := [''http://awair.local/settings/config/data'']\<rparr>)))
     = \<lparr> hostname = ''awair.local'' \<rparr>"
  using hostname_never_modified [OF NewAwairExporter_literal,
      where ops = "[OpDescribe, OpCollect ConfigFirst, OpGetMetrics, OpGetConfig, OpCollect MetricsFirst]"]
    NewAwairExporter_literal
  by (simp add: literal_exporter_def)

end
